theory Spec2Isabelle
  imports Complex_Main "HOL-Library.Log_Nat"
begin

section \<open>The cart controller of the storefront backend\<close>

text \<open>
  The five request handlers of the cart controller (\<open>getCart\<close>, \<open>addToCart\<close>,
  \<open>updateCartItem\<close>, \<open>removeFromCart\<close>, \<open>clearCart\<close>) are embedded as functions
  from the tables of the remote store and the request to the tables after the request and
  the response that was sent.

  Modelling decisions:
  \<^item> A JavaScript number is an IEEE 754 double. The finite ones are rationals, and the
    numbers of a request and of the tables are finite doubles. A sum or product is the
    exact result rounded to the nearest double, ties to even; the total of a cart may
    overflow to an infinity. The sign of a zero is not kept: no handler observes it.
  \<^item> Keys are typed: user and product keys are strings, the key of a cart line is a
    natural number. A request parameter that is not a key of that type is outside the model.
  \<^item> Both store clients (\<open>supabase\<close>, \<open>supabaseAdmin\<close>) see the same two tables; row-level
    policies are configuration outside the repository.
  \<^item> Every call to the store may fail: the handler receives a fault plan that gives the
    error (if any) of its n-th store call, counted from 0 in the order of the source.
    A failed call changes nothing.
\<close>

subsection \<open>Numbers\<close>

text \<open>A value of type number: a finite double, an infinity, or \<open>NaN\<close>.\<close>

datatype number = Fin rat | PosInf | NegInf | NaN

text \<open>Powers of two with an integer exponent, and for \<open>x > 0\<close> the exponent \<open>k\<close> with
  \<open>2^k \<le> x < 2^(k+1)\<close>: the bit lengths of numerator and denominator give it up to one.\<close>

definition pow2 :: "int \<Rightarrow> rat" where
  "pow2 k = (if 0 \<le> k then 2 ^ nat k else 1 / 2 ^ nat (- k))"

definition ilog2 :: "rat \<Rightarrow> int" where
  "ilog2 x =
     (case quotient_of x of
        (a, b) \<Rightarrow> let k = bitlen a - bitlen b in if pow2 k \<le> x then k else k - 1)"

text \<open>The nearest integer, the even one of two that are equally near.\<close>

definition round_half_even :: "rat \<Rightarrow> int" where
  "round_half_even m =
     (let f = \<lfloor>m\<rfloor>; r = m - of_int f
      in if r < 1 / 2 then f else if 1 / 2 < r then f + 1 else if even f then f else f + 1)"

text \<open>Rounding to the nearest double, before the test for overflow: the doubles around
  \<open>x\<close> with \<open>2^k \<le> |x| < 2^(k+1)\<close> are the multiples of \<open>2^(k-52)\<close> (53 significant bits), and
  below \<open>2^(-1022)\<close> the multiples of \<open>2^(-1074)\<close> (the subnormal numbers).\<close>

definition round64 :: "rat \<Rightarrow> rat" where
  "round64 x =
     (if x = 0 then 0
      else let ulp = pow2 (max (ilog2 \<bar>x\<bar>) (- 1022) - 52)
           in of_int (round_half_even (x / ulp)) * ulp)"

text \<open>The largest double; a rounded result beyond it is an infinity.\<close>

definition max_double :: rat where
  "max_double = (2 ^ 53 - 1) * 2 ^ 971"

definition to_number :: "rat \<Rightarrow> number" where
  "to_number x =
     (if max_double < x then PosInf else if x < - max_double then NegInf else Fin x)"

text \<open>\<open>x * y\<close> of two finite doubles, and \<open>x + y\<close> of two numbers.\<close>

definition mul64 :: "rat \<Rightarrow> rat \<Rightarrow> number" where
  "mul64 x y = to_number (round64 (x * y))"

fun add_num :: "number \<Rightarrow> number \<Rightarrow> number" where
  "add_num (Fin x) (Fin y) = to_number (round64 (x + y))"
| "add_num NaN y = NaN"
| "add_num x NaN = NaN"
| "add_num PosInf NegInf = NaN"
| "add_num NegInf PosInf = NaN"
| "add_num PosInf y = PosInf"
| "add_num x PosInf = PosInf"
| "add_num NegInf y = NegInf"
| "add_num x NegInf = NegInf"

text \<open>\<open>x + y\<close> of two finite doubles, for \<open>newQuantity\<close> of \<open>addToCart\<close>: the rounded sum,
  which is the finite value of \<open>add_num\<close>. That sum is compared with the stock and
  written only when it is not above it. Where the source has \<open>Infinity\<close> (the rounded sum
  is above the largest double), the value here is above every double, so above the stock
  as \<open>Infinity\<close> is, and it is not written either.\<close>

definition add64 :: "rat \<Rightarrow> rat \<Rightarrow> rat" where
  "add64 x y = round64 (x + y)"

subsection \<open>Request values\<close>

text \<open>A field of a parsed JSON body; \<open>JUndefined\<close> is an absent field, \<open>JNum\<close> a finite
  number, \<open>JObject\<close> any object or array.\<close>

datatype json = JUndefined | JNull | JBool bool | JNum rat | JStr string | JObject

text \<open>The body of \<open>POST /cart\<close>: \<open>{ product_id, quantity }\<close>. An absent or null
  \<open>product_id\<close> is \<open>None\<close>.\<close>

record add_request =
  req_product_id :: "string option"
  req_quantity :: json

text \<open>\<open>!product_id\<close> for a string or absent value: the empty string is falsy.\<close>

fun falsy :: "string option \<Rightarrow> bool" where
  "falsy None = True"
| "falsy (Some x) = (x = [])"

subsection \<open>The store\<close>

record pg_error =
  e_code :: string
  e_message :: string

text \<open>The error of \<open>.single()\<close> when the query does not return exactly one row.\<close>

definition PGRST116 :: pg_error where
  "PGRST116 = \<lparr>e_code = ''PGRST116'',
     e_message = ''JSON object requested, multiple (or no) rows returned''\<rparr>"

text \<open>Table \<open>products\<close>.\<close>

record product =
  p_id :: string
  p_name :: string
  p_description :: string
  p_price :: rat
  p_image_url :: string
  p_stock_quantity :: rat

text \<open>Table \<open>shopping_cart\<close>.\<close>

record cart_row =
  c_id :: nat
  c_user_id :: string
  c_product_id :: string
  c_quantity :: rat

record store =
  products :: "product list"
  shopping_cart :: "cart_row list"

type_synonym faults = "nat \<Rightarrow> pg_error option"

definition no_faults :: faults where
  "no_faults = (\<lambda>n. None)"

text \<open>\<open>.single()\<close>: the row when there is exactly one, the error otherwise; a failed call
  gives no data and its error.\<close>

fun single :: "'a list \<Rightarrow> 'a option \<times> pg_error option" where
  "single [x] = (Some x, None)"
| "single xs = (None, Some PGRST116)"

definition run_single :: "pg_error option \<Rightarrow> 'a list \<Rightarrow> 'a option \<times> pg_error option" where
  "run_single flt rows = (case flt of Some e \<Rightarrow> (None, Some e) | None \<Rightarrow> single rows)"

text \<open>\<open>.from('products').select(...).eq('id', k)\<close>, and the \<open>.eq\<close> filters on
  \<open>shopping_cart\<close>.\<close>

definition products_by_id :: "store \<Rightarrow> string \<Rightarrow> product list" where
  "products_by_id s k = filter (\<lambda>p. p_id p = k) (products s)"

definition owned_by :: "string \<Rightarrow> cart_row \<Rightarrow> bool" where
  "owned_by userId r = (c_user_id r = userId)"

definition line_of :: "string \<Rightarrow> string \<Rightarrow> cart_row \<Rightarrow> bool" where
  "line_of userId k r = (c_user_id r = userId \<and> c_product_id r = k)"

definition line_by_id :: "nat \<Rightarrow> string \<Rightarrow> cart_row \<Rightarrow> bool" where
  "line_by_id i userId r = (c_id r = i \<and> c_user_id r = userId)"

definition has_id :: "nat \<Rightarrow> cart_row \<Rightarrow> bool" where
  "has_id i r = (c_id r = i)"

text \<open>\<open>.update({ quantity }) ... .select().single()\<close>: the rows matching the filter get the
  quantity. Unless exactly one row matches, \<open>.single()\<close> makes the call fail with
  PGRST116, and the store rolls the request back: nothing changes.\<close>

definition update_rows :: "(cart_row \<Rightarrow> bool) \<Rightarrow> rat \<Rightarrow> cart_row list \<Rightarrow> cart_row list" where
  "update_rows P q rows = map (\<lambda>r. if P r then r\<lparr>c_quantity := q\<rparr> else r) rows"

definition update_single ::
  "pg_error option \<Rightarrow> (cart_row \<Rightarrow> bool) \<Rightarrow> rat \<Rightarrow> store \<Rightarrow> store \<times> pg_error option" where
  "update_single flt P q s =
     (case flt of
        Some e \<Rightarrow> (s, Some e)
      | None \<Rightarrow>
          (case filter P (shopping_cart s) of
             [r] \<Rightarrow> (s\<lparr>shopping_cart := update_rows P q (shopping_cart s)\<rparr>, None)
           | _ \<Rightarrow> (s, Some PGRST116)))"

text \<open>\<open>.insert([cartItem]).select().single()\<close>: the table assigns the key of the new row,
  here the least number above every key of the table.\<close>

definition fresh_id :: "cart_row list \<Rightarrow> nat" where
  "fresh_id rows = Suc (fold max (map c_id rows) 0)"

definition insert_single ::
  "pg_error option \<Rightarrow> string \<Rightarrow> string \<Rightarrow> rat \<Rightarrow> store \<Rightarrow> store \<times> pg_error option" where
  "insert_single flt userId k q s =
     (case flt of
        Some e \<Rightarrow> (s, Some e)
      | None \<Rightarrow>
          (s\<lparr>shopping_cart := shopping_cart s @
               [\<lparr>c_id = fresh_id (shopping_cart s), c_user_id = userId,
                 c_product_id = k, c_quantity = q\<rparr>]\<rparr>, None))"

text \<open>\<open>.delete()\<close> with a filter: no error when no row matches.\<close>

definition delete_rows :: "pg_error option \<Rightarrow> (cart_row \<Rightarrow> bool) \<Rightarrow> store \<Rightarrow> store \<times> pg_error option" where
  "delete_rows flt P s =
     (case flt of
        Some e \<Rightarrow> (s, Some e)
      | None \<Rightarrow> (s\<lparr>shopping_cart := filter (\<lambda>r. \<not> P r) (shopping_cart s)\<rparr>, None))"

subsection \<open>Responses\<close>

text \<open>An element of \<open>items\<close>: \<open>{ id, quantity, product }\<close>, where \<open>product\<close> is the joined
  row of \<open>products\<close>, or null when there is none.\<close>

record item =
  i_id :: nat
  i_quantity :: rat
  i_product :: "product option"

text \<open>The \<open>details\<close> field of an error body: the message of an error object, or one of
  the template strings of the source with its arguments.\<close>

datatype details =
    Message string
  | NoProductWithID "string option"
  | OnlyUnitsFor rat string
  | NoCartItemWithID nat
  | NoProductForCartItem nat
  | OnlyUnits rat

datatype body =
    Cart "item list" number
  | Error string "details option"
  | Confirmation string

datatype response = Response nat body

text \<open>\<open>err?.message || fallback\<close>.\<close>

definition message_or :: "pg_error option \<Rightarrow> details \<Rightarrow> details" where
  "message_or err fallback =
     (case err of
        Some e \<Rightarrow> if e_message e = [] then fallback else Message (e_message e)
      | None \<Rightarrow> fallback)"

text \<open>The \<open>catch\<close> block of a handler: a thrown error (\<open>Inl\<close> of its message) becomes a
  500 response. The store keeps what was written before the throw.\<close>

definition catch :: "string \<Rightarrow> store \<times> (string + response) \<Rightarrow> store \<times> response" where
  "catch msg r =
     (case r of
        (s, Inl m) \<Rightarrow> (s, Response 500 (Error msg (Some (Message m))))
      | (s, Inr resp) \<Rightarrow> (s, resp))"

subsection \<open>Reading the cart\<close>

text \<open>The select with the embedded \<open>products (...)\<close> and \<open>.eq('user_id', userId)\<close>.\<close>

definition join_product :: "store \<Rightarrow> cart_row \<Rightarrow> item" where
  "join_product s r =
     \<lparr>i_id = c_id r, i_quantity = c_quantity r,
      i_product = find (\<lambda>p. p_id p = c_product_id r) (products s)\<rparr>"

definition select_cart :: "store \<Rightarrow> string \<Rightarrow> item list" where
  "select_cart s userId = map (join_product s) (filter (owned_by userId) (shopping_cart s))"

text \<open>\<open>reduce((sum, item) => sum + (item.products.price * item.quantity), 0)\<close>: reading
  \<open>price\<close> of a null product throws a TypeError (\<open>None\<close>).\<close>

fun reduce_total :: "number \<Rightarrow> item list \<Rightarrow> number option" where
  "reduce_total acc [] = Some acc"
| "reduce_total acc (it # its) =
     (case i_product it of
        None \<Rightarrow> None
      | Some p \<Rightarrow> reduce_total (add_num acc (mul64 (p_price p) (i_quantity it))) its)"

definition type_error_message :: string where
  "type_error_message = ''Cannot read properties of null (reading 'price')''"

text \<open>The block shared by the handlers: fetch the lines of the user, build the cart body
  and send it with the given status.\<close>

definition cart_response :: "store \<Rightarrow> pg_error option \<Rightarrow> string \<Rightarrow> nat \<Rightarrow> string + response" where
  "cart_response s flt userId st =
     (case flt of
        Some e \<Rightarrow> Inl (e_message e)
      | None \<Rightarrow>
          (let cartItems = select_cart s userId in
           case reduce_total (Fin 0) cartItems of
             None \<Rightarrow> Inl type_error_message
           | Some tot \<Rightarrow> Inr (Response st (Cart cartItems tot))))"

subsection \<open>The handlers\<close>

definition getCart :: "store \<Rightarrow> faults \<Rightarrow> string \<Rightarrow> store \<times> response" where
  "getCart s flt userId =
     catch ''Error fetching cart'' (s, cart_response s (flt 0) userId 200)"

definition invalid_add :: response where
  "invalid_add =
     Response 400 (Error ''Invalid input: product_id and quantity are required'' None)"

definition not_enough_for :: "product \<Rightarrow> response" where
  "not_enough_for product =
     Response 400 (Error ''Not enough stock available''
       (Some (OnlyUnitsFor (p_stock_quantity product) (p_name product))))"

text \<open>Lines 93 to 170 of \<open>addToCart\<close>: the write (update of the existing line, or
  insert of a new one), then the cart.\<close>

definition add_write ::
  "store \<Rightarrow> faults \<Rightarrow> string \<Rightarrow> product \<Rightarrow> rat \<Rightarrow> cart_row option \<Rightarrow> store \<times> (string + response)" where
  "add_write s flt userId product quantity existingItem =
     (case existingItem of
        Some ex \<Rightarrow>
          (let newQuantity = add64 (c_quantity ex) quantity in
           if newQuantity > p_stock_quantity product then (s, Inr (not_enough_for product))
           else
             (case update_single (flt 2) (line_by_id (c_id ex) userId) newQuantity s of
                (s', Some e) \<Rightarrow> (s', Inl (e_message e))
              | (s', None) \<Rightarrow> (s', cart_response s' (flt 3) userId 201)))
      | None \<Rightarrow>
          (case insert_single (flt 2) userId (p_id product) quantity s of
             (s', Some e) \<Rightarrow> (s', Inl (e_message e))
           | (s', None) \<Rightarrow> (s', cart_response s' (flt 3) userId 201)))"

text \<open>Lines 56 to 91: the product lookup, the first stock check and the lookup of the
  existing line. An error of that lookup other than PGRST116 is thrown.\<close>

definition add_checked ::
  "store \<Rightarrow> faults \<Rightarrow> string \<Rightarrow> string option \<Rightarrow> rat \<Rightarrow> store \<times> (string + response)" where
  "add_checked s flt userId product_id quantity =
     (case run_single (flt 0) (filter (\<lambda>p. Some (p_id p) = product_id) (products s)) of
        (Some product, None) \<Rightarrow>
          if p_stock_quantity product < quantity then (s, Inr (not_enough_for product))
          else
            (case run_single (flt 1)
                    (filter (line_of userId (p_id product)) (shopping_cart s)) of
               (existingItem, Some cartError) \<Rightarrow>
                 if e_code cartError \<noteq> ''PGRST116'' then (s, Inl (e_message cartError))
                 else add_write s flt userId product quantity existingItem
             | (existingItem, None) \<Rightarrow>
                 add_write s flt userId product quantity existingItem)
      | (_, productError) \<Rightarrow>
          (s, Inr (Response 404 (Error ''Product not found''
                 (Some (message_or productError (NoProductWithID product_id)))))))"

text \<open>The handler: the destructuring default \<open>quantity = 1\<close> applies to an absent field
  only; \<open>typeof quantity !== 'number'\<close> is every value but a \<open>JNum\<close>.\<close>

definition addToCart :: "store \<Rightarrow> faults \<Rightarrow> string \<Rightarrow> add_request \<Rightarrow> store \<times> response" where
  "addToCart s flt userId req =
     catch ''Error adding item to cart''
       (let product_id = req_product_id req;
            quantity = (case req_quantity req of JUndefined \<Rightarrow> JNum 1 | v \<Rightarrow> v)
        in case quantity of
             JNum q \<Rightarrow>
               if falsy product_id \<or> q \<le> 0 then (s, Inr invalid_add)
               else add_checked s flt userId product_id q
           | _ \<Rightarrow> (s, Inr invalid_add))"

definition invalid_update :: response where
  "invalid_update =
     Response 400
       (Error ''Invalid input: quantity is required and must be a positive number'' None)"

definition not_enough :: "product \<Rightarrow> response" where
  "not_enough product =
     Response 400 (Error ''Not enough stock available''
       (Some (OnlyUnits (p_stock_quantity product))))"

text \<open>Lines 192 to 266 of \<open>updateCartItem\<close>. The update filters on the key of the line
  only.\<close>

definition update_checked ::
  "store \<Rightarrow> faults \<Rightarrow> string \<Rightarrow> nat \<Rightarrow> rat \<Rightarrow> store \<times> (string + response)" where
  "update_checked s flt userId i quantity =
     (case run_single (flt 0) (filter (line_by_id i userId) (shopping_cart s)) of
        (Some cartItem, None) \<Rightarrow>
          (case run_single (flt 1) (products_by_id s (c_product_id cartItem)) of
             (Some product, None) \<Rightarrow>
               if quantity > p_stock_quantity product then (s, Inr (not_enough product))
               else
                 (case update_single (flt 2) (has_id i) quantity s of
                    (s', Some e) \<Rightarrow> (s', Inl (e_message e))
                  | (s', None) \<Rightarrow> (s', cart_response s' (flt 3) userId 200))
           | (_, productError) \<Rightarrow>
               (s, Inr (Response 404 (Error ''Product not found''
                      (Some (message_or productError (NoProductForCartItem i)))))))
      | (_, cartError) \<Rightarrow>
          (s, Inr (Response 404 (Error ''Cart item not found''
                 (Some (message_or cartError (NoCartItemWithID i)))))))"

text \<open>The handler: \<open>!quantity\<close> of a number is \<open>quantity = 0\<close>; the other falsy values are
  no numbers.\<close>

definition updateCartItem :: "store \<Rightarrow> faults \<Rightarrow> string \<Rightarrow> nat \<Rightarrow> json \<Rightarrow> store \<times> response" where
  "updateCartItem s flt userId i quantity =
     catch ''Error updating cart item''
       (case quantity of
          JNum q \<Rightarrow>
            if q = 0 \<or> q \<le> 0 then (s, Inr invalid_update)
            else update_checked s flt userId i q
        | _ \<Rightarrow> (s, Inr invalid_update))"

definition removeFromCart :: "store \<Rightarrow> faults \<Rightarrow> string \<Rightarrow> nat \<Rightarrow> store \<times> response" where
  "removeFromCart s flt userId i =
     catch ''Error removing item from cart''
       (case delete_rows (flt 0) (line_by_id i userId) s of
          (s', Some e) \<Rightarrow> (s', Inl (e_message e))
        | (s', None) \<Rightarrow> (s', cart_response s' (flt 1) userId 200))"

definition clearCart :: "store \<Rightarrow> faults \<Rightarrow> string \<Rightarrow> store \<times> response" where
  "clearCart s flt userId =
     catch ''Error clearing cart''
       (case delete_rows (flt 0) (owned_by userId) s of
          (s', Some e) \<Rightarrow> (s', Inl (e_message e))
        | (s', None) \<Rightarrow> (s', Inr (Response 200 (Confirmation ''Cart cleared successfully''))))"

subsection \<open>Notions of the specification\<close>

text \<open>The lines of a user, and the line of a user for a product.\<close>

definition user_lines :: "store \<Rightarrow> string \<Rightarrow> cart_row list" where
  "user_lines s userId = filter (owned_by userId) (shopping_cart s)"


text \<open>The current price of a product in a products table (0 for a key with no row; the
  handlers send no cart body then).\<close>

definition current_price :: "product list \<Rightarrow> string \<Rightarrow> rat" where
  "current_price ps k = (case find (\<lambda>p. p_id p = k) ps of Some p \<Rightarrow> p_price p | None \<Rightarrow> 0)"

text \<open>The sum over lines of quantity times current price, as a program computes it: in
  the arithmetic of numbers, line after line from 0.\<close>

definition add_line :: "product list \<Rightarrow> number \<Rightarrow> cart_row \<Rightarrow> number" where
  "add_line ps acc r = add_num acc (mul64 (c_quantity r) (current_price ps (c_product_id r)))"

definition lines_total :: "product list \<Rightarrow> cart_row list \<Rightarrow> number" where
  "lines_total ps rows = foldl (add_line ps) (Fin 0) rows"

text \<open>The same sum in exact arithmetic.\<close>

definition exact_total :: "product list \<Rightarrow> cart_row list \<Rightarrow> rat" where
  "exact_total ps rows = (\<Sum>r\<leftarrow>rows. c_quantity r * current_price ps (c_product_id r))"

text \<open>Every line of the user references a row of \<open>products\<close>.\<close>

definition references_ok :: "store \<Rightarrow> string \<Rightarrow> bool" where
  "references_ok s userId =
     list_all (\<lambda>r. find (\<lambda>p. p_id p = c_product_id r) (products s) \<noteq> None) (user_lines s userId)"

text \<open>A quantity that is a number above 0, and a number that is an integer.\<close>

fun positive_number :: "json \<Rightarrow> bool" where
  "positive_number (JNum q) = (0 < q)"
| "positive_number v = False"

definition is_integer :: "rat \<Rightarrow> bool" where
  "is_integer q = (of_int \<lfloor>q\<rfloor> = q)"

text \<open>An integer of magnitude at most \<open>2^53\<close>: up to there every integer is a double. And
  lines whose quantities and current prices are whole and not negative.\<close>

definition safe_integer :: "rat \<Rightarrow> bool" where
  "safe_integer x = (is_integer x \<and> \<bar>x\<bar> \<le> 2 ^ 53)"

definition whole_amounts :: "product list \<Rightarrow> cart_row list \<Rightarrow> bool" where
  "whole_amounts ps rows =
     list_all (\<lambda>r. is_integer (c_quantity r) \<and> 0 \<le> c_quantity r \<and>
                  is_integer (current_price ps (c_product_id r)) \<and>
                  0 \<le> current_price ps (c_product_id r)) rows"

text \<open>The response to a request for a line that the user does not own.\<close>

definition cart_item_not_found :: response where
  "cart_item_not_found =
     Response 404 (Error ''Cart item not found'' (Some (Message (e_message PGRST116))))"

subsection \<open>Example tables\<close>

definition chips :: product where
  "chips = \<lparr>p_id = ''p1'', p_name = ''Chips'', p_description = ''Salted'', p_price = 5,
     p_image_url = ''chips.png'', p_stock_quantity = 4\<rparr>"

definition empty_cart_store :: store where
  "empty_cart_store = \<lparr>products = [chips], shopping_cart = []\<rparr>"

definition alice_line :: cart_row where
  "alice_line = \<lparr>c_id = 1, c_user_id = ''alice'', c_product_id = ''p1'', c_quantity = 3\<rparr>"

definition alice_store :: store where
  "alice_store = \<lparr>products = [chips], shopping_cart = [alice_line]\<rparr>"




definition add_chips :: "json \<Rightarrow> add_request" where
  "add_chips v = \<lparr>req_product_id = Some ''p1'', req_quantity = v\<rparr>"

section \<open>Properties\<close>

text \<open>The definitions of the handlers and of the examples, for evaluation.\<close>

lemmas handler_defs =
  addToCart_def add_checked_def add_write_def updateCartItem_def update_checked_def
  removeFromCart_def clearCart_def getCart_def catch_def run_single_def update_single_def
  insert_single_def delete_rows_def cart_response_def select_cart_def join_product_def
  update_rows_def fresh_id_def owned_by_def line_of_def line_by_id_def has_id_def
  products_by_id_def not_enough_for_def not_enough_def invalid_add_def invalid_update_def
  message_or_def PGRST116_def Let_def

lemmas example_defs =
  chips_def empty_cart_store_def alice_line_def alice_store_def add_chips_def no_faults_def

subsection \<open>Whole numbers are added and multiplied exactly\<close>

lemma pow2_powi: "pow2 k = 2 powi k"
  by (simp add: pow2_def power_int_def inverse_eq_divide power_one_over)

lemma pow2_pos: "0 < pow2 k"
  by (simp add: pow2_powi)

lemma pow2_le_imp: "pow2 a \<le> pow2 b \<Longrightarrow> 0 \<le> b \<Longrightarrow> a \<le> b"
  using power_int_le_imp_le_exp [of "2::rat" a b] by (simp add: pow2_powi)

lemma pow2_diff: "pow2 (a - b) = pow2 a / pow2 b"
  by (simp add: pow2_powi power_int_diff)

text \<open>The exponent that \<open>ilog2\<close> gives is not too large.\<close>

lemma ilog2_le:
  assumes "0 < x"
  shows "pow2 (ilog2 x) \<le> x"
proof -
  obtain a b where q: "quotient_of x = (a, b)" by (cases "quotient_of x")
  then have b: "0 < b" and x: "x = of_int a / of_int b"
    by (simp_all add: quotient_of_denom_pos quotient_of_div)
  with assms have a: "0 < a" by (simp add: zero_less_divide_iff)
  let ?k = "bitlen a - bitlen b"
  show ?thesis
  proof (cases "pow2 ?k \<le> x")
    case True
    with q show ?thesis by (simp add: ilog2_def)
  next
    case False
    from bitlen_bounds [OF a] have "(2::int) ^ nat (bitlen a - 1) \<le> a" by simp
    then have "(of_int ((2::int) ^ nat (bitlen a - 1)) :: rat) \<le> of_int a"
      by (simp only: of_int_le_iff)
    moreover from a have "1 \<le> bitlen a" by (auto simp: bitlen_alt_def)
    ultimately have lo: "pow2 (bitlen a - 1) \<le> of_int a"
      by (simp add: pow2_def)
    from bitlen_bounds [OF b] have "b < (2::int) ^ nat (bitlen b)" by simp
    then have "(of_int b :: rat) < of_int ((2::int) ^ nat (bitlen b))"
      by (simp only: of_int_less_iff)
    then have hi: "of_int b \<le> pow2 (bitlen b)"
      using bitlen_nonneg [of b] by (simp add: pow2_def)
    have "pow2 (?k - 1) = pow2 (bitlen a - 1) / pow2 (bitlen b)"
      using pow2_diff [of "bitlen a - 1" "bitlen b"] by (simp add: algebra_simps)
    also have "\<dots> \<le> of_int a / of_int b"
      using lo hi b a pow2_pos [of "bitlen b"] pow2_pos [of "bitlen a - 1"]
      by (intro frac_le) simp_all
    finally have "pow2 (?k - 1) \<le> x" using x by simp
    with False q show ?thesis by (simp add: ilog2_def)
  qed
qed

lemma round_half_even_int: "round_half_even (of_int n) = n"
  by (simp add: round_half_even_def)

text \<open>A multiple of the spacing of the doubles around it is a double.\<close>

lemma round64_multiple:
  assumes "x \<noteq> 0" and "x = of_int n * pow2 (max (ilog2 \<bar>x\<bar>) (- 1022) - 52)"
  shows "round64 x = x"
proof -
  let ?ulp = "pow2 (max (ilog2 \<bar>x\<bar>) (- 1022) - 52)"
  have "x / ?ulp = of_int n"
    using assms(2) pow2_pos [of "max (ilog2 \<bar>x\<bar>) (- 1022) - 52"] by (simp add: field_simps)
  then have "round_half_even (x / ?ulp) = n" by (simp add: round_half_even_int)
  with assms show ?thesis by (simp add: round64_def Let_def)
qed

lemma round64_integer:
  assumes int: "is_integer x" and bound: "\<bar>x\<bar> \<le> 2 ^ 53"
  shows "round64 x = x"
proof (cases "x = 0")
  case True
  then show ?thesis by (simp add: round64_def)
next
  case False
  from int obtain n where n: "x = of_int n" by (auto simp: is_integer_def)
  let ?e = "ilog2 \<bar>x\<bar>"
  let ?k = "max ?e (- 1022) - 52"
  from False have "pow2 ?e \<le> \<bar>x\<bar>" by (simp add: ilog2_le)
  with bound have "pow2 ?e \<le> pow2 53" by (simp add: pow2_def)
  then have e: "?e \<le> 53" by (rule pow2_le_imp) simp
  show ?thesis
  proof (cases "?k \<le> 0")
    case True
    then have "pow2 ?k = 1 / 2 ^ nat (- ?k)" by (auto simp: pow2_def)
    then have "x = of_int (n * 2 ^ nat (- ?k)) * pow2 ?k" using n by simp
    with False show ?thesis by (rule round64_multiple)
  next
    case False
    with e have k: "?e = 53" by simp
    with \<open>pow2 ?e \<le> \<bar>x\<bar>\<close> bound have "\<bar>x\<bar> = 2 ^ 53" by (simp add: pow2_def)
    with n have "\<bar>n\<bar> = 2 ^ 53"
      by (metis of_int_abs of_int_eq_iff of_int_numeral of_int_power)
    then have "even \<bar>n\<bar>" by simp
    then have "n = 2 * (n div 2)" by simp
    with n have "x = of_int (n div 2) * 2" by (metis mult.commute of_int_mult of_int_numeral)
    moreover from k have "pow2 ?k = 2" by (simp add: pow2_def)
    ultimately have "x = of_int (n div 2) * pow2 ?k" by simp
    with \<open>x \<noteq> 0\<close> show ?thesis by (rule round64_multiple)
  qed
qed

lemma to_number_small: "\<bar>x\<bar> \<le> 2 ^ 53 \<Longrightarrow> to_number x = Fin x"
proof -
  assume "\<bar>x\<bar> \<le> 2 ^ 53"
  moreover have "(2::rat) ^ 53 \<le> max_double" by (simp add: max_double_def)
  ultimately have "\<bar>x\<bar> \<le> max_double" by simp
  then show ?thesis by (auto simp: to_number_def)
qed

lemma add_num_add64: "add_num (Fin x) (Fin y) = to_number (add64 x y)"
  by (simp add: add64_def)

lemma add64_overflow: "to_number (add64 x y) = PosInf \<Longrightarrow> S \<le> max_double \<Longrightarrow> S < add64 x y"
  by (simp add: to_number_def split: if_splits)




lemma is_integer_Ints: "is_integer x = (x \<in> \<int>)"
  by (auto simp: is_integer_def Ints_def)


lemma exact_total_integer: "whole_amounts ps rows \<Longrightarrow> is_integer (exact_total ps rows)"
  by (induction rows) (simp_all add: whole_amounts_def exact_total_def is_integer_Ints)



text \<open>For the evaluation of sums and products of small whole numbers.\<close>

lemmas whole_number_simps =
  round64_integer to_number_small is_integer_def safe_integer_def mul64_def add64_def
  add_line_def lines_total_def

subsection \<open>Thrown errors, and the products table\<close>

lemma fst_catch: "fst (catch msg x) = fst x"
  by (simp add: catch_def split: prod.splits sum.splits)

lemma catch_Inr: "catch msg (s, Inr r) = (s, r)"
  by (simp add: catch_def)


lemma products_update_single: "update_single flt P q s = (s', e) \<Longrightarrow> products s' = products s"
  by (auto simp: update_single_def split: option.splits list.splits)

lemma products_insert_single: "insert_single flt u k q s = (s', e) \<Longrightarrow> products s' = products s"
  by (auto simp: insert_single_def split: option.splits)

lemma products_delete_rows: "delete_rows flt P s = (s', e) \<Longrightarrow> products s' = products s"
  by (auto simp: delete_rows_def split: option.splits)

lemma products_add_write: "products (fst (add_write s flt u p q ex)) = products s"
  by (auto simp: add_write_def Let_def split: prod.splits option.splits
      dest: products_insert_single products_update_single)

lemma products_add_checked: "products (fst (add_checked s flt u k q)) = products s"
  by (simp add: add_checked_def products_add_write split: prod.splits option.splits)

lemma products_update_checked: "products (fst (update_checked s flt u i q)) = products s"
  by (auto simp: update_checked_def split: prod.splits option.splits
      dest: products_update_single)

subsection \<open>The cart body\<close>

lemma join_product_sel:
  "i_product (join_product s r) = find (\<lambda>p. p_id p = c_product_id r) (products s)"
  "i_quantity (join_product s r) = c_quantity r"
  "i_id (join_product s r) = c_id r"
  by (simp_all add: join_product_def)

lemma mul64_commute: "mul64 x y = mul64 y x"
  by (simp add: mul64_def mult.commute)


lemma reduce_total_ok:
  "list_all (\<lambda>r. find (\<lambda>p. p_id p = c_product_id r) (products s) \<noteq> None) rows \<Longrightarrow>
     reduce_total acc (map (join_product s) rows) = Some (foldl (add_line (products s)) acc rows)"
proof (induction rows arbitrary: acc)
  case Nil
  then show ?case by simp
next
  case (Cons r rows)
  from Cons.prems obtain p where
    p: "find (\<lambda>p. p_id p = c_product_id r) (products s) = Some p" and
    rest: "list_all (\<lambda>r. find (\<lambda>p. p_id p = c_product_id r) (products s) \<noteq> None) rows"
    by auto
  from p have step: "add_line (products s) acc r = add_num acc (mul64 (p_price p) (c_quantity r))"
    by (simp add: add_line_def current_price_def mul64_commute)
  have "reduce_total acc (map (join_product s) (r # rows)) =
      reduce_total (add_num acc (mul64 (p_price p) (c_quantity r))) (map (join_product s) rows)"
    using p by (simp add: join_product_sel)
  also have "\<dots> = Some (foldl (add_line (products s))
      (add_num acc (mul64 (p_price p) (c_quantity r))) rows)"
    by (rule Cons.IH [OF rest])
  finally show ?case using step by simp
qed


lemma cart_response_ok:
  "references_ok s u \<Longrightarrow>
     cart_response s None u st =
       Inr (Response st (Cart (select_cart s u) (lines_total (products s) (user_lines s u))))"
  using reduce_total_ok [of s "user_lines s u" "Fin 0"]
  by (simp add: cart_response_def select_cart_def user_lines_def references_ok_def
      lines_total_def)

lemma cart_response_shape:
  "cart_response s flt u st = Inr r \<Longrightarrow> \<exists>items tot. r = Response st (Cart items tot)"
  by (auto simp: cart_response_def Let_def split: option.splits)


subsection \<open>Rows and keys\<close>

lemma filter_has_id:
  "distinct (map c_id rows) \<Longrightarrow> r \<in> set rows \<Longrightarrow> filter (has_id (c_id r)) rows = [r]"
proof (induction rows)
  case Nil
  then show ?case by simp
next
  case (Cons x rows)
  show ?case
  proof (cases "r = x")
    case True
    from Cons.prems have "c_id x \<notin> c_id ` set rows" by simp
    then have "\<forall>y\<in>set rows. c_id y \<noteq> c_id x" by (metis imageI)
    then have "filter (has_id (c_id x)) rows = []"
      by (simp add: filter_empty_conv has_id_def)
    moreover have "has_id (c_id x) x" by (simp add: has_id_def)
    ultimately show ?thesis using True by simp
  next
    case False
    with Cons.prems have "r \<in> set rows" and "c_id x \<noteq> c_id r" by auto
    moreover from this have "\<not> has_id (c_id r) x" by (simp add: has_id_def)
    ultimately show ?thesis using Cons by simp
  qed
qed

lemma filter_line_by_id:
  "distinct (map c_id rows) \<Longrightarrow> r \<in> set rows \<Longrightarrow>
     filter (line_by_id (c_id r) u) rows = (if c_user_id r = u then [r] else [])"
proof -
  assume d: "distinct (map c_id rows)" and r: "r \<in> set rows"
  have "line_by_id (c_id r) u = (\<lambda>x. has_id (c_id r) x \<and> owned_by u x)"
    by (simp add: fun_eq_iff line_by_id_def owned_by_def has_id_def)
  then have "filter (line_by_id (c_id r) u) rows = filter (owned_by u) (filter (has_id (c_id r)) rows)"
    by simp
  also have "\<dots> = filter (owned_by u) [r]"
    using filter_has_id [OF d r] by simp
  finally show ?thesis by (simp add: owned_by_def)
qed

lemma filter_update_rows:
  "(\<And>x. P (x\<lparr>c_quantity := v\<rparr>) = P x) \<Longrightarrow>
     filter P (update_rows Q v rows) = update_rows Q v (filter P rows)"
  by (induction rows) (simp_all add: update_rows_def)


lemma run_single_empty: "fst (run_single flt []) = None"
  by (simp add: run_single_def split: option.splits)

lemma delete_rows_nothing:
  "\<forall>r\<in>set (shopping_cart s). \<not> P r \<Longrightarrow> fst (delete_rows flt P s) = s"
  by (simp add: delete_rows_def split: option.splits)

subsection \<open>The stages of addToCart\<close>








lemma add_checked_valid:
  "snd (catch m (add_checked s flt u k q)) \<noteq> invalid_add"
  by (auto simp: add_checked_def add_write_def Let_def catch_def not_enough_for_def invalid_add_def
      split: prod.splits option.splits sum.splits if_splits dest!: cart_response_shape)



subsection \<open>The stages of updateCartItem and removeFromCart\<close>

lemma updateCartItem_valid:
  "0 < q \<Longrightarrow> updateCartItem s flt u i (JNum q) =
     catch ''Error updating cart item'' (update_checked s flt u i q)"
  by (simp add: updateCartItem_def)

lemma update_checked_not_owned:
  assumes "filter (line_by_id i u) (shopping_cart s) = []" and "flt 0 = None"
  shows "update_checked s flt u i q = (s, Inr cart_item_not_found)"
  using assms
  by (simp add: update_checked_def run_single_def cart_item_not_found_def message_or_def PGRST116_def)

lemma update_checked_refused:
  assumes "fst (run_single (flt 0) (filter (line_by_id i u) (shopping_cart s))) = None"
  shows "fst (update_checked s flt u i q) = s"
  using assms
  by (auto simp: update_checked_def split: prod.splits option.splits)

lemma update_checked_found:
  assumes "flt 0 = None" and "flt 1 = None"
    and "filter (line_by_id i u) (shopping_cart s) = [r]"
    and "products_by_id s (c_product_id r) = [p]"
  shows "update_checked s flt u i q =
     (if q > p_stock_quantity p then (s, Inr (not_enough p))
      else (case update_single (flt 2) (has_id i) q s of
              (s', Some e) \<Rightarrow> (s', Inl (e_message e))
            | (s', None) \<Rightarrow> (s', cart_response s' (flt 3) u 200)))"
  using assms by (simp add: update_checked_def run_single_def)


lemma removeFromCart_store:
  "fst (removeFromCart s flt U i) = fst (delete_rows (flt 0) (line_by_id i U) s)"
  by (simp add: removeFromCart_def fst_catch split: prod.splits option.splits)

subsection \<open>Where a cart body comes from\<close>





subsection \<open>What addToCart writes\<close>









subsection \<open>The example tables\<close>

lemma add_three_chips:
  "fst (addToCart empty_cart_store no_faults ''alice'' (add_chips (JNum 3))) = alice_store"
  by (simp add: handler_defs example_defs)

lemma three_halves: "\<not> is_integer (3/2)"
proof -
  have "\<lfloor>3/2 :: rat\<rfloor> = 1" by (simp add: floor_eq_iff)
  then show ?thesis by (simp add: is_integer_def)
qed



section \<open>The claims\<close>

subsection \<open>Adding to the cart is cumulative\<close>



subsection \<open>The stock bound of addToCart\<close>



subsection \<open>The total of the cart\<close>



subsection \<open>Updating a line sets its quantity\<close>

text \<open>
  Claim C4. \<open>updateCartItem\<close> sets the quantity absolutely. For a line of the user, whatever
  its quantity, whose product is one row of the products table, and a quantity \<open>q > 0\<close>,
  when the store calls succeed: if \<open>q\<close> is at most the current stock of the product, the
  line has quantity exactly \<open>q\<close> afterwards and the other lines are as before; if \<open>q\<close>
  exceeds the stock, the response is "Not enough stock available" and nothing is written.
  The keys of the cart table are distinct.
\<close>

theorem updateCartItem_absolute:
  assumes keys: "distinct (map c_id (shopping_cart s))"
    and line: "r \<in> set (shopping_cart s)" "c_id r = i" "c_user_id r = U"
    and product: "products_by_id s (c_product_id r) = [p]"
    and quantity: "0 < q"
    and store_up: "flt 0 = None" "flt 1 = None" "flt 2 = None"
    and result: "res = updateCartItem s flt U i (JNum q)"
  shows "(q \<le> p_stock_quantity p \<longrightarrow>
            filter (has_id i) (shopping_cart (fst res)) = [r\<lparr>c_quantity := q\<rparr>] \<and>
            filter (\<lambda>x. \<not> has_id i x) (shopping_cart (fst res)) =
              filter (\<lambda>x. \<not> has_id i x) (shopping_cart s)) \<and>
         (p_stock_quantity p < q \<longrightarrow> res = (s, not_enough p))"
proof -
  have one: "filter (has_id i) (shopping_cart s) = [r]"
    using filter_has_id [OF keys line(1)] line(2) by simp
  have mine: "filter (line_by_id i U) (shopping_cart s) = [r]"
    using filter_line_by_id [OF keys line(1), of U] line(2,3) by simp
  have res: "res = catch ''Error updating cart item'' (update_checked s flt U i q)"
    using result quantity by (simp add: updateCartItem_valid)
  have refused: "res = (s, not_enough p)" if "p_stock_quantity p < q"
    using that res store_up mine product by (simp add: update_checked_found catch_Inr)
  have written: "shopping_cart (fst res) = update_rows (has_id i) q (shopping_cart s)"
    if "q \<le> p_stock_quantity p"
    using that res store_up mine product one
    by (simp add: update_checked_found fst_catch update_single_def)
  have "filter (has_id i) (update_rows (has_id i) q (shopping_cart s)) =
      update_rows (has_id i) q (filter (has_id i) (shopping_cart s))"
    by (rule filter_update_rows) (simp add: has_id_def)
  with one line(2) have same: "filter (has_id i) (update_rows (has_id i) q (shopping_cart s)) =
      [r\<lparr>c_quantity := q\<rparr>]"
    by (simp add: update_rows_def has_id_def)
  have others: "filter (\<lambda>x. \<not> has_id i x) (update_rows (has_id i) q rows) =
      filter (\<lambda>x. \<not> has_id i x) rows" for rows
    by (induction rows) (simp_all add: update_rows_def has_id_def)
  from refused written same others show ?thesis by simp
qed

theorem updateCartItem_absolute_witness:
  "filter (has_id 1)
     (shopping_cart (fst (updateCartItem
        (fst (addToCart empty_cart_store no_faults ''alice'' (add_chips (JNum 3))))
        no_faults ''alice'' 1 (JNum 1)))) =
     [\<lparr>c_id = 1, c_user_id = ''alice'', c_product_id = ''p1'', c_quantity = 1\<rparr>] \<and>
   updateCartItem alice_store no_faults ''alice'' 1 (JNum 5) = (alice_store, not_enough chips)"
proof -
  have p: "products_by_id alice_store (c_product_id alice_line) = [chips]"
    by (simp add: products_by_id_def example_defs)
  have l: "alice_line \<in> set (shopping_cart alice_store)"
    and k: "distinct (map c_id (shopping_cart alice_store))"
    by (simp_all add: alice_store_def)
  have "filter (has_id 1)
     (shopping_cart (fst (updateCartItem alice_store no_faults ''alice'' 1 (JNum 1)))) =
     [\<lparr>c_id = 1, c_user_id = ''alice'', c_product_id = ''p1'', c_quantity = 1\<rparr>]"
    using updateCartItem_absolute [OF k l _ _ p, of 1 "''alice''" 1 no_faults]
    by (simp add: alice_line_def chips_def no_faults_def)
  moreover have "updateCartItem alice_store no_faults ''alice'' 1 (JNum 5) =
      (alice_store, not_enough chips)"
    using updateCartItem_absolute [OF k l _ _ p, of 1 "''alice''" 5 no_faults]
    by (simp add: alice_line_def chips_def no_faults_def)
  ultimately show ?thesis by (simp add: add_three_chips)
qed

subsection \<open>Lines of other users\<close>

text \<open>
  Claim C5. Ownership isolation of \<open>updateCartItem\<close>. For distinct users \<open>U1\<close> and \<open>U2\<close> and
  a line owned by \<open>U1\<close>, a request of \<open>U2\<close> for that line with a quantity \<open>q > 0\<close> is answered
  404 "Cart item not found", with the very response given for a key that no line has, and
  no request of \<open>U2\<close> for that line, whatever its quantity and whatever the faults of the
  store, changes the store. The keys of the cart table are distinct, and the lookup of the
  line succeeds.
\<close>

theorem updateCartItem_ownership:
  assumes keys: "distinct (map c_id (shopping_cart s))"
    and line: "r \<in> set (shopping_cart s)" "c_id r = i" "c_user_id r = U1"
    and other: "U1 \<noteq> U2"
    and quantity: "0 < q"
    and store_up: "flt 0 = None"
  shows "updateCartItem s flt U2 i (JNum q) = (s, cart_item_not_found) \<and>
         (\<forall>j. (\<forall>x\<in>set (shopping_cart s). c_id x \<noteq> j) \<longrightarrow>
            updateCartItem s flt U2 j (JNum q) = (s, cart_item_not_found)) \<and>
         (\<forall>flt' v. fst (updateCartItem s flt' U2 i v) = s)"
proof -
  have none: "filter (line_by_id i U2) (shopping_cart s) = []"
    using filter_line_by_id [OF keys line(1), of U2] line(2,3) other by simp
  have hidden: "updateCartItem s flt U2 i (JNum q) = (s, cart_item_not_found)"
    using none store_up quantity
    by (simp add: updateCartItem_valid update_checked_not_owned catch_Inr)
  have absent: "updateCartItem s flt U2 j (JNum q) = (s, cart_item_not_found)"
    if "\<forall>x\<in>set (shopping_cart s). c_id x \<noteq> j" for j
  proof -
    from that have "filter (line_by_id j U2) (shopping_cart s) = []"
      by (simp add: filter_empty_conv line_by_id_def)
    with store_up quantity show ?thesis
      by (simp add: updateCartItem_valid update_checked_not_owned catch_Inr)
  qed
  have kept: "fst (updateCartItem s flt' U2 i v) = s" for flt' v
    using none
    by (simp add: updateCartItem_def fst_catch update_checked_refused run_single_empty
        split: json.splits)
  from hidden absent kept show ?thesis by blast
qed

theorem updateCartItem_ownership_witness:
  "updateCartItem alice_store no_faults ''bob'' 1 (JNum 2) = (alice_store, cart_item_not_found) \<and>
   updateCartItem alice_store no_faults ''bob'' 7 (JNum 2) = (alice_store, cart_item_not_found) \<and>
   fst (updateCartItem alice_store no_faults ''bob'' 1 (JNum 0)) = alice_store"
proof -
  have l: "alice_line \<in> set (shopping_cart alice_store)"
    and k: "distinct (map c_id (shopping_cart alice_store))"
    and a: "\<forall>x\<in>set (shopping_cart alice_store). c_id x \<noteq> 7"
    by (simp_all add: alice_store_def alice_line_def)
  have "updateCartItem alice_store no_faults ''bob'' 1 (JNum 2) = (alice_store, cart_item_not_found) \<and>
      (\<forall>j. (\<forall>x\<in>set (shopping_cart alice_store). c_id x \<noteq> j) \<longrightarrow>
         updateCartItem alice_store no_faults ''bob'' j (JNum 2) = (alice_store, cart_item_not_found)) \<and>
      (\<forall>flt' v. fst (updateCartItem alice_store flt' ''bob'' 1 v) = alice_store)"
    using updateCartItem_ownership [OF k l, of 1 "''alice''" "''bob''" 2 no_faults]
    by (simp add: alice_line_def no_faults_def)
  with a show ?thesis by blast
qed

subsection \<open>Validation of the quantity\<close>

text \<open>
  Claim C6, as amended. Validation of the quantity. A quantity that is present and is not
  a number above 0 (zero, a negative number, or a value that is no number) makes
  \<open>addToCart\<close> answer 400 "Invalid input"; such a quantity, or none at all, makes
  \<open>updateCartItem\<close> answer 400 "Invalid input". The answer is given whatever the store
  holds and whatever its faults, and the store is unchanged; in particular zero and
  negative quantities remove nothing. The handlers test for a positive number, not for an
  integer: the quantity 3/2 passes validation in both.
\<close>

theorem quantity_validation:
  "(\<not> positive_number v \<and> v \<noteq> JUndefined \<longrightarrow>
      addToCart s flt U \<lparr>req_product_id = k, req_quantity = v\<rparr> = (s, invalid_add)) \<and>
   (\<not> positive_number v \<longrightarrow> updateCartItem s flt U i v = (s, invalid_update))"
  by (cases v) (auto simp: addToCart_def updateCartItem_def catch_Inr)

theorem quantity_validation_witness:
  "addToCart alice_store no_faults ''alice'' (add_chips (JNum 0)) = (alice_store, invalid_add) \<and>
   addToCart alice_store no_faults ''alice'' (add_chips (JNum (- 2))) = (alice_store, invalid_add) \<and>
   addToCart alice_store no_faults ''alice'' (add_chips (JStr ''2'')) = (alice_store, invalid_add) \<and>
   updateCartItem alice_store no_faults ''alice'' 1 (JNum 0) = (alice_store, invalid_update) \<and>
   updateCartItem alice_store no_faults ''alice'' 1 (JNum (- 2)) = (alice_store, invalid_update) \<and>
   updateCartItem alice_store no_faults ''alice'' 1 JUndefined = (alice_store, invalid_update)"
  using quantity_validation [of "JNum 0" alice_store no_faults "''alice''" "Some ''p1''" 1]
    quantity_validation [of "JNum (- 2)" alice_store no_faults "''alice''" "Some ''p1''" 1]
    quantity_validation [of "JStr ''2''" alice_store no_faults "''alice''" "Some ''p1''" 1]
    quantity_validation [of JUndefined alice_store no_faults "''alice''" "Some ''p1''" 1]
  by (simp add: add_chips_def)

text \<open>The quantity 3/2 is positive and no integer, and neither handler answers it with
  its validation error.\<close>

theorem fractional_quantity_accepted:
  "0 < (3/2 :: rat) \<and> \<not> is_integer (3/2) \<and>
   snd (addToCart empty_cart_store no_faults ''alice'' (add_chips (JNum (3/2)))) \<noteq> invalid_add \<and>
   snd (updateCartItem alice_store no_faults ''alice'' 1 (JNum (3/2))) \<noteq> invalid_update"
proof -
  have "snd (addToCart empty_cart_store no_faults ''alice'' (add_chips (JNum (3/2)))) \<noteq> invalid_add"
    by (simp add: handler_defs example_defs)
  moreover have "snd (updateCartItem alice_store no_faults ''alice'' 1 (JNum (3/2))) \<noteq> invalid_update"
    by (simp add: handler_defs example_defs)
  ultimately show ?thesis by (simp add: three_halves)
qed

subsection \<open>Removing a line\<close>

text \<open>
  Claim C7. \<open>removeFromCart\<close> is idempotent, and total on missing lines. When no line has
  the given key and the given owner (there is no such line, or it belongs to another
  user), the request leaves the store as it is, under every fault plan, and, when the
  store calls succeed and every line of the user references a product, it answers 200
  with the cart of the user. In general, when the delete call succeeds, the cart table
  afterwards is the table without the lines of that key and owner, and a second request
  with the same arguments gives the store and the response of the first.
\<close>

theorem removeFromCart_idempotent:
  "((\<forall>r\<in>set (shopping_cart s). \<not> line_by_id i U r) \<longrightarrow>
      fst (removeFromCart s flt U i) = s \<and>
      (references_ok s U \<longrightarrow>
         snd (removeFromCart s no_faults U i) =
           Response 200 (Cart (select_cart s U) (lines_total (products s) (user_lines s U))))) \<and>
   (flt 0 = None \<longrightarrow>
      shopping_cart (fst (removeFromCart s flt U i)) =
        filter (\<lambda>r. \<not> line_by_id i U r) (shopping_cart s) \<and>
      removeFromCart (fst (removeFromCart s flt U i)) flt U i = removeFromCart s flt U i)"
proof -
  have kept: "fst (removeFromCart s flt' U i) = s"
    if "\<forall>r\<in>set (shopping_cart s). \<not> line_by_id i U r" for flt'
    using that by (simp add: removeFromCart_store delete_rows_nothing)
  have answered: "snd (removeFromCart s no_faults U i) =
      Response 200 (Cart (select_cart s U) (lines_total (products s) (user_lines s U)))"
    if none: "\<forall>r\<in>set (shopping_cart s). \<not> line_by_id i U r" and refs: "references_ok s U"
  proof -
    from none have "filter (\<lambda>r. \<not> line_by_id i U r) (shopping_cart s) = shopping_cart s"
      by (simp add: filter_id_conv)
    then have "removeFromCart s no_faults U i =
        catch ''Error removing item from cart'' (s, cart_response s None U 200)"
      by (simp add: removeFromCart_def delete_rows_def no_faults_def)
    with refs show ?thesis by (simp add: cart_response_ok catch_Inr)
  qed
  have twice: "shopping_cart (fst (removeFromCart s flt U i)) =
        filter (\<lambda>r. \<not> line_by_id i U r) (shopping_cart s) \<and>
      removeFromCart (fst (removeFromCart s flt U i)) flt U i = removeFromCart s flt U i"
    if up: "flt 0 = None"
  proof -
    let ?s' = "s\<lparr>shopping_cart := filter (\<lambda>r. \<not> line_by_id i U r) (shopping_cart s)\<rparr>"
    from up have first: "removeFromCart s flt U i =
        catch ''Error removing item from cart'' (?s', cart_response ?s' (flt 1) U 200)"
      by (simp add: removeFromCart_def delete_rows_def)
    from up have "removeFromCart ?s' flt U i =
        catch ''Error removing item from cart'' (?s', cart_response ?s' (flt 1) U 200)"
      by (simp add: removeFromCart_def delete_rows_def)
    with first show ?thesis by (simp add: fst_catch)
  qed
  from kept answered twice show ?thesis by blast
qed

theorem removeFromCart_idempotent_witness:
  "removeFromCart alice_store no_faults ''bob'' 1 = (alice_store, Response 200 (Cart [] (Fin 0))) \<and>
   removeFromCart alice_store no_faults ''alice'' 7 =
     (alice_store, Response 200 (Cart [\<lparr>i_id = 1, i_quantity = 3, i_product = Some chips\<rparr>] (Fin 15))) \<and>
   removeFromCart (fst (removeFromCart alice_store no_faults ''alice'' 1)) no_faults ''alice'' 1 =
     removeFromCart alice_store no_faults ''alice'' 1"
proof -
  have "removeFromCart alice_store no_faults ''bob'' 1 = (alice_store, Response 200 (Cart [] (Fin 0)))"
    using removeFromCart_idempotent [of alice_store 1 "''bob''" no_faults]
    by (simp add: prod_eq_iff alice_store_def alice_line_def line_by_id_def references_ok_def
        user_lines_def select_cart_def lines_total_def owned_by_def)
  moreover have "removeFromCart alice_store no_faults ''alice'' 7 =
     (alice_store, Response 200 (Cart [\<lparr>i_id = 1, i_quantity = 3, i_product = Some chips\<rparr>] (Fin 15)))"
    using removeFromCart_idempotent [of alice_store 7 "''alice''" no_faults]
    by (simp add: prod_eq_iff alice_store_def alice_line_def line_by_id_def references_ok_def
        user_lines_def select_cart_def owned_by_def chips_def join_product_def
        current_price_def whole_number_simps)
  moreover have "removeFromCart (fst (removeFromCart alice_store no_faults ''alice'' 1))
      no_faults ''alice'' 1 = removeFromCart alice_store no_faults ''alice'' 1"
    using removeFromCart_idempotent [of alice_store 1 "''alice''" no_faults]
    by (simp add: no_faults_def)
  ultimately show ?thesis by simp
qed

subsection \<open>Clearing the cart\<close>

text \<open>
  Claim C8. When its store call succeeds, \<open>clearCart\<close> deletes the lines of the user, all
  of them and no others, and answers 200 with the message "Cart cleared successfully",
  not a cart body. A second \<open>clearCart\<close> gives the same store and response, and \<open>getCart\<close>
  for the user then answers with no items and total 0.
\<close>

theorem clearCart_deletes_all:
  assumes store_up: "flt 0 = None"
  shows "clearCart s flt U =
           (s\<lparr>shopping_cart := filter (\<lambda>r. c_user_id r \<noteq> U) (shopping_cart s)\<rparr>,
            Response 200 (Confirmation ''Cart cleared successfully'')) \<and>
         clearCart (fst (clearCart s flt U)) flt U = clearCart s flt U \<and>
         (flt' 0 = None \<longrightarrow>
            snd (getCart (fst (clearCart s flt U)) flt' U) = Response 200 (Cart [] (Fin 0)))"
  using store_up
  by (simp add: clearCart_def delete_rows_def catch_Inr owned_by_def getCart_def
      cart_response_def select_cart_def)

theorem clearCart_deletes_all_witness:
  "clearCart alice_store no_faults ''alice'' =
     (empty_cart_store, Response 200 (Confirmation ''Cart cleared successfully'')) \<and>
   clearCart empty_cart_store no_faults ''alice'' =
     (empty_cart_store, Response 200 (Confirmation ''Cart cleared successfully'')) \<and>
   snd (getCart (fst (clearCart alice_store no_faults ''alice'')) no_faults ''alice'') =
     Response 200 (Cart [] (Fin 0))"
proof -
  have up: "no_faults 0 = None" by (simp add: no_faults_def)
  have a: "alice_store\<lparr>shopping_cart := filter (\<lambda>r. c_user_id r \<noteq> ''alice'')
      (shopping_cart alice_store)\<rparr> = empty_cart_store"
    and e: "empty_cart_store\<lparr>shopping_cart := filter (\<lambda>r. c_user_id r \<noteq> ''alice'')
      (shopping_cart empty_cart_store)\<rparr> = empty_cart_store"
    by (simp_all add: alice_store_def alice_line_def empty_cart_store_def)
  note alice = clearCart_deletes_all [of no_faults alice_store "''alice''" no_faults]
  from alice up have "snd (getCart (fst (clearCart alice_store no_faults ''alice'')) no_faults ''alice'') =
      Response 200 (Cart [] (Fin 0))"
    by blast
  moreover from alice a up have "clearCart alice_store no_faults ''alice'' =
      (empty_cart_store, Response 200 (Confirmation ''Cart cleared successfully''))"
    by simp
  moreover from clearCart_deletes_all [of no_faults empty_cart_store "''alice''" no_faults] e up
  have "clearCart empty_cart_store no_faults ''alice'' =
      (empty_cart_store, Response 200 (Confirmation ''Cart cleared successfully''))"
    by simp
  ultimately show ?thesis by blast
qed

subsection \<open>The products table is only read\<close>

text \<open>
  Claim C9. No operation of the cart service (\<open>getCart\<close>, \<open>addToCart\<close>,
  \<open>updateCartItem\<close>, \<open>removeFromCart\<close>, \<open>clearCart\<close>) writes the products table: on
  every path, successful or failing, under every fault plan, the table after the request
  is the table before it.
\<close>

theorem products_never_written:
  "products (fst (getCart s flt userId)) = products s \<and>
   products (fst (addToCart s flt userId req)) = products s \<and>
   products (fst (updateCartItem s flt userId i quantity)) = products s \<and>
   products (fst (removeFromCart s flt userId i)) = products s \<and>
   products (fst (clearCart s flt userId)) = products s"
proof -
  have "products (fst (getCart s flt userId)) = products s"
    by (simp add: getCart_def fst_catch)
  moreover have "products (fst (addToCart s flt userId req)) = products s"
    by (simp add: addToCart_def fst_catch Let_def products_add_checked split: json.splits)
  moreover have "products (fst (updateCartItem s flt userId i quantity)) = products s"
    by (simp add: updateCartItem_def fst_catch products_update_checked split: json.splits)
  moreover have "products (fst (removeFromCart s flt userId i)) = products s"
    by (auto simp: removeFromCart_def fst_catch split: prod.splits option.splits
        dest: products_delete_rows)
  moreover have "products (fst (clearCart s flt userId)) = products s"
    by (auto simp: clearCart_def fst_catch split: prod.splits option.splits
        dest: products_delete_rows)
  ultimately show ?thesis by simp
qed

theorem products_never_written_witness:
  "products (fst (getCart alice_store no_faults ''alice'')) = [chips] \<and>
   products (fst (addToCart alice_store no_faults ''alice'' (add_chips (JNum 1)))) = [chips] \<and>
   products (fst (updateCartItem alice_store no_faults ''alice'' 1 (JNum 2))) = [chips] \<and>
   products (fst (removeFromCart alice_store no_faults ''alice'' 1)) = [chips] \<and>
   products (fst (clearCart alice_store no_faults ''alice'')) = [chips]"
  using products_never_written [of alice_store no_faults "''alice''" "add_chips (JNum 1)" 1 "JNum 2"]
  by (simp add: alice_store_def)

subsection \<open>The default quantity\<close>

text \<open>
  Claim C10. A request to \<open>addToCart\<close> without a \<open>quantity\<close> field does what the request
  with quantity 1 does, in every store and under every fault plan: the same store
  afterwards and the same response (so the same stock checks, a new line with quantity 1
  or an existing line incremented by 1). With a product key that is not falsy, the response
  is not the validation error.
\<close>

theorem addToCart_default_quantity:
  "addToCart s flt U \<lparr>req_product_id = k, req_quantity = JUndefined\<rparr> =
     addToCart s flt U \<lparr>req_product_id = k, req_quantity = JNum 1\<rparr> \<and>
   (\<not> falsy k \<longrightarrow>
      snd (addToCart s flt U \<lparr>req_product_id = k, req_quantity = JUndefined\<rparr>) \<noteq> invalid_add)"
  by (simp add: addToCart_def add_checked_valid)

theorem addToCart_default_quantity_witness:
  "addToCart empty_cart_store no_faults ''alice'' (add_chips JUndefined) =
     (\<lparr>products = [chips],
       shopping_cart = [\<lparr>c_id = 1, c_user_id = ''alice'', c_product_id = ''p1'', c_quantity = 1\<rparr>]\<rparr>,
      Response 201 (Cart [\<lparr>i_id = 1, i_quantity = 1, i_product = Some chips\<rparr>] (Fin 5))) \<and>
   shopping_cart (fst (addToCart alice_store no_faults ''alice'' (add_chips JUndefined))) =
     [\<lparr>c_id = 1, c_user_id = ''alice'', c_product_id = ''p1'', c_quantity = 4\<rparr>]"
proof -
  have one: "addToCart empty_cart_store no_faults ''alice'' (add_chips (JNum 1)) =
     (\<lparr>products = [chips],
       shopping_cart = [\<lparr>c_id = 1, c_user_id = ''alice'', c_product_id = ''p1'', c_quantity = 1\<rparr>]\<rparr>,
      Response 201 (Cart [\<lparr>i_id = 1, i_quantity = 1, i_product = Some chips\<rparr>] (Fin 5)))"
    by (simp add: handler_defs example_defs whole_number_simps)
  have more: "shopping_cart (fst (addToCart alice_store no_faults ''alice'' (add_chips (JNum 1)))) =
     [\<lparr>c_id = 1, c_user_id = ''alice'', c_product_id = ''p1'', c_quantity = 4\<rparr>]"
    by (simp add: handler_defs example_defs whole_number_simps)
  from one more show ?thesis
    using addToCart_default_quantity [of empty_cart_store no_faults "''alice''" "Some ''p1''"]
      addToCart_default_quantity [of alice_store no_faults "''alice''" "Some ''p1''"]
    by (simp add: add_chips_def)
qed

end
